theory Spec2Isabelle
  imports Main "HOL-Library.Word"
begin

section \<open>Machine integers and the library functions the adapter calls\<close>

text \<open>
  Go's \<open>int64\<close> and \<open>uint64\<close> are 64-bit words: \<open>+\<close>, \<open>*\<close> and unary minus wrap
  around, \<open>sint\<close> reads the two's complement value, \<open>unat\<close> the unsigned one, and the
  conversions \<open>uint64(i)\<close> and \<open>int64(u)\<close> keep the bits. A Go string is a sequence
  of bytes, as \<open>string\<close> is here.
\<close>

type_synonym int64 = "64 word"
type_synonym uint64 = "64 word"

subsection \<open>strconv.ParseInt(s, 10, 64)\<close>

text \<open>
  The adapter calls \<open>strconv.ParseInt\<close> with base 10 and bit size 64 only, so the model
  fixes both. \<open>NumError\<close> keeps the \<open>Err\<close> field of Go's \<open>*strconv.NumError\<close>; with
  this base and bit size no other error than these two arises.
\<close>

datatype NumError = ErrSyntax | ErrRange

definition lower :: "nat \<Rightarrow> nat" where
  \<comment> \<open>\<open>lower(c) = c | ('x' - 'X')\<close>\<close>
  "lower c = or c 32"

definition digitOf :: "char \<Rightarrow> nat option" where
  \<comment> \<open>the \<open>switch\<close> in the loop of \<open>ParseUint\<close>: the value of a digit or letter,
      \<open>None\<close> in the default case\<close>
  "digitOf ch =
     (let c = (of_char ch :: nat) in
      if 48 \<le> c \<and> c \<le> 57 then Some (c - 48)
      else if 97 \<le> lower c \<and> lower c \<le> 122 then Some (lower c - 97 + 10)
      else None)"

definition maxUint64 :: uint64 where
  "maxUint64 = - 1"

definition cutoffU :: uint64 where
  \<comment> \<open>\<open>maxUint64/10 + 1\<close>, the smallest number whose tenfold exceeds \<open>maxUint64\<close>\<close>
  "cutoffU = maxUint64 div 10 + 1"

fun parseUintLoop :: "uint64 \<Rightarrow> string \<Rightarrow> uint64 \<times> NumError option" where
  "parseUintLoop n [] = (n, None)"
| "parseUintLoop n (c # cs) =
     (case digitOf c of
        None \<Rightarrow> (0, Some ErrSyntax)
      | Some d \<Rightarrow>
          if d \<ge> 10 then (0, Some ErrSyntax)
          else if n \<ge> cutoffU then (maxUint64, Some ErrRange)
          else
            let n10 = n * 10; n1 = n10 + of_nat d in
            if n1 < n10 \<or> n1 > maxUint64 then (maxUint64, Some ErrRange)
            else parseUintLoop n1 cs)"

definition ParseUint :: "string \<Rightarrow> uint64 \<times> NumError option" where
  "ParseUint s = (if s = [] then (0, Some ErrSyntax) else parseUintLoop 0 s)"

definition cutoffI :: uint64 where
  \<comment> \<open>\<open>uint64(1 << uint(bitSize-1))\<close>\<close>
  "cutoffI = push_bit 63 1"

definition ParseInt :: "string \<Rightarrow> int64 \<times> NumError option" where
  "ParseInt s =
     (if s = [] then (0, Some ErrSyntax)
      else
        let neg = (hd s = CHR ''-'');
            s1 = (if hd s = CHR ''+'' \<or> hd s = CHR ''-'' then tl s else s);
            (un, err) = ParseUint s1
        in
          if err = Some ErrSyntax then (0, Some ErrSyntax)
          else if \<not> neg \<and> un \<ge> cutoffI then (cutoffI - 1, Some ErrRange)
          else if neg \<and> un > cutoffI then (- cutoffI, Some ErrRange)
          else (if neg then - un else un, None))"

subsection \<open>strconv.FormatInt(i, 10) and the verb \<open>%d\<close>\<close>

text \<open>
  \<open>FormatInt\<close> in base 10 writes a minus sign for a negative number and then the decimal
  digits of the magnitude, which it computes as \<open>-uint64(i)\<close>: the most significant
  digit first, no leading zero, \<open>0\<close> as the one digit \<open>0\<close>. \<open>fmt\<close> formats an
  \<open>int64\<close> under \<open>%d\<close> the same way.
\<close>

definition digits :: string where
  "digits = ''0123456789''"

fun formatBits :: "nat \<Rightarrow> string" where
  "formatBits u = (if u < 10 then [digits ! u] else formatBits (u div 10) @ [digits ! (u mod 10)])"

declare formatBits.simps [simp del]

definition FormatInt :: "int64 \<Rightarrow> string" where
  "FormatInt i = (if sint i < 0 then CHR ''-'' # formatBits (unat (- i)) else formatBits (unat i))"

section \<open>The adapter's data\<close>

text \<open>
  \<open>framework.Error\<close> carries a message and a machine-readable code. The source uses
  three codes of the framework's enumeration. The specification's set of codes also names
  \<open>InvalidCursor\<close>, which no line of the source returns; it is a constructor here so
  that statements about it can be written.
\<close>

datatype ErrorCode =
    ERROR_CODE_INTERNAL
  | ERROR_CODE_DATASOURCE_FAILED
  | ERROR_CODE_INVALID_PAGE_REQUEST_CONFIG
  | InvalidCursor

record Error =
  Message :: string
  Code :: ErrorCode

text \<open>
  A function of the source either returns or panics. Deferred calls run in both cases.
\<close>

datatype 'a outcome = Panic | Return 'a

text \<open>
  A record of the datasource is a \<open>map[string]any\<close>. The adapter passes the values
  on without looking at them, so their type stays a parameter. A Go slice is \<open>nil\<close>
  (\<open>None\<close>) or a sequence.
\<close>

type_synonym 'v object = "string \<rightharpoonup> 'v"

record 'v DatasourceResponse =
  Objects :: "'v object list option"
  More :: bool
  Limit :: int64
  Offset :: int64

text \<open>
  Modelled from the spec: the structs \<open>Request\<close> and \<open>Response\<close> are declared in a
  file of the package that is not among the sources. Their fields are the ones
  \<open>GetPage\<close> reads and writes; the specification gives PageRequest and PageResponse
  with the same content. \<open>PageSize\<close> is formatted with \<open>%d\<close> and is taken to be
  an \<open>int64\<close>.
\<close>

record Request =
  BaseURL :: string
  EntityExternalID :: string
  PageSize :: int64
  Cursor :: string
  HTTPAuthorization :: string

record 'v Response =
  StatusCode :: int
  RetryAfterHeader :: string
  Objects :: "'v object list option"
  NextCursor :: string

subsection \<open>The HTTP transport and the JSON decoder\<close>

text \<open>
  \<open>net/http\<close> and \<open>encoding/json\<close> are not part of the adapter. What \<open>GetPage\<close>
  sees of them is:
  \<^item> whether \<open>http.NewRequestWithContext\<close>, that is \<open>url.Parse\<close>, accepts the text
    of the URL;
  \<^item> what \<open>Client.Do\<close> answers to a request: an error (\<open>None\<close>; this covers a
    connection failure, the five-second deadline and a cancelled context) or a response
    with a status code, headers and a body;
  \<^item> what \<open>io.ReadAll\<close> gets from the body: an error (\<open>None\<close>) or its bytes;
  \<^item> what \<open>json.Unmarshal(body, &data)\<close> does with \<open>data\<close> of type
    \<open>*DatasourceResponse\<close>: it reports an error (\<open>Inl\<close> with the text that \<open>%v\<close>
    prints), or it leaves \<open>data\<close> \<open>nil\<close> (\<open>Inr None\<close>, as for the JSON literal
    \<open>null\<close>), or it makes \<open>data\<close> point to a decoded envelope.
  These are parameters of the model, collected in \<open>Env\<close>.
\<close>

text \<open>
  \<open>http.NewRequestWithContext\<close> does not keep the text it is given: \<open>url.Parse\<close> makes
  a \<open>url.URL\<close> of it, and the transport writes the request from that. \<open>url.Parse\<close>
  cuts the text at the first \<open>#\<close>; what follows is the fragment, which is not sent. It
  cuts the rest at the first \<open>?\<close>; what follows is \<open>RawQuery\<close>, which the transport
  sends as it is. Scheme, host and path come from what precedes the \<open>?\<close> and may be
  written differently on the wire (a space in the path goes out as \<open>%20\<close>); they are not
  modelled apart. So a request has the text its URL was parsed from, \<open>URLText\<close>, and
  the query of the URL, \<open>RawQuery\<close>.
\<close>

definition stringsCut :: "char \<Rightarrow> string \<Rightarrow> string \<times> string" where
  \<comment> \<open>\<open>strings.Cut(s, sep)\<close> for a separator of one byte: the text before the first
      \<open>sep\<close> and the text after it, the whole of \<open>s\<close> and nothing when there is none\<close>
  "stringsCut sep s = (takeWhile (\<lambda>c. c \<noteq> sep) s, drop 1 (dropWhile (\<lambda>c. c \<noteq> sep) s))"

definition rawQueryOf :: "string \<Rightarrow> string" where
  \<comment> \<open>\<open>RawQuery\<close> of the URL that \<open>url.Parse\<close> makes of a text\<close>
  "rawQueryOf rawURL = snd (stringsCut (CHR ''?'') (fst (stringsCut (CHR ''#'') rawURL)))"

record HttpRequest =
  Method :: string
  URLText :: string
  RawQuery :: string
  ReqHeader :: "(string \<times> string) list"

record HttpResponse =
  StatusCode :: int
  Header :: "string \<rightharpoonup> string list"
  Body :: "string option"

definition HeaderGet :: "(string \<rightharpoonup> string list) \<Rightarrow> string \<Rightarrow> string" where
  \<comment> \<open>\<open>Header.Get\<close>: the first value of the key, the empty string when there is none\<close>
  "HeaderGet h key = (case h key of None \<Rightarrow> [] | Some [] \<Rightarrow> [] | Some (v # vs) \<Rightarrow> v)"

record 'v Env =
  NewRequestOK :: "string \<Rightarrow> bool"
  Do :: "HttpRequest \<Rightarrow> HttpResponse option"
  Unmarshal :: "string \<Rightarrow> string + 'v DatasourceResponse option"

text \<open>
  What a call of \<open>GetPage\<close> does to the transport and to the body of the response, in
  the order in which it happens.
\<close>

datatype Event = ClientDo HttpRequest | BodyReadAll | BodyClose

section \<open>The adapter's functions\<close>

definition parseCursor :: "string \<Rightarrow> Error + int64" where
  "parseCursor cursor =
     (if cursor = [] then Inr 0
      else
        case ParseInt cursor of
          (parsedOffset, Some parseErr) \<Rightarrow>
            Inl \<lparr>Message = ''Request cursor conversion to int64 failed.'',
                 Code = ERROR_CODE_INVALID_PAGE_REQUEST_CONFIG\<rparr>
        | (parsedOffset, None) \<Rightarrow> Inr parsedOffset)"

definition nextCursorOf :: "bool \<Rightarrow> int64 \<Rightarrow> int64 \<Rightarrow> string" where
  \<comment> \<open>the three lines of \<open>ParseResponse\<close> that compute \<open>nextCursor\<close> from
      \<open>data.More\<close>, \<open>data.Offset\<close> and \<open>data.Limit\<close>\<close>
  "nextCursorOf hasMore offset limit = (if hasMore then FormatInt (offset + limit) else [])"

definition ParseResponse ::
  "(string \<Rightarrow> string + 'v DatasourceResponse option) \<Rightarrow> string
     \<Rightarrow> (Error + 'v object list option \<times> string) outcome" where
  "ParseResponse unmarshal body =
     (case unmarshal body of
        Inl unmarshalErr \<Rightarrow>
          Return (Inl \<lparr>Message = ''Failed to unmarshal the datasource response: '' @ unmarshalErr @ ''.'',
                       Code = ERROR_CODE_INTERNAL\<rparr>)
      | Inr None \<Rightarrow> Panic \<comment> \<open>\<open>data.More\<close> with \<open>data == nil\<close>\<close>
      | Inr (Some data) \<Rightarrow>
          Return (Inr (DatasourceResponse.Objects data,
                       nextCursorOf (More data) (Offset data) (Limit data))))"

definition requestURL :: "Request \<Rightarrow> int64 \<Rightarrow> string" where
  \<comment> \<open>\<open>fmt.Sprintf("%s/%s?offset=%d&limit=%d", ...)\<close>\<close>
  "requestURL request offset =
     BaseURL request @ ''/'' @ EntityExternalID request
       @ ''?offset='' @ FormatInt offset @ ''&limit='' @ FormatInt (PageSize request)"

definition newRequest :: "Request \<Rightarrow> string \<Rightarrow> HttpRequest" where
  \<comment> \<open>the GET request that \<open>http.NewRequestWithContext\<close> makes of the text, with the
      three headers added in the source's order\<close>
  "newRequest request url =
     \<lparr>Method = ''GET'', URLText = url, RawQuery = rawQueryOf url,
      ReqHeader = [(''Accept'', ''application/vnd.pagerduty+json;version=2''),
                   (''Authorization'', HTTPAuthorization request),
                   (''Content-Type'', ''application/json'')]\<rparr>"

definition GetPage :: "'v Env \<Rightarrow> Request \<Rightarrow> (Error + 'v Response) outcome \<times> Event list" where
  "GetPage env request =
     (case parseCursor (Cursor request) of
        Inl offsetErr \<Rightarrow> (Return (Inl offsetErr), [])
      | Inr offset \<Rightarrow>
          let url = requestURL request offset in
          if \<not> NewRequestOK env url then
            (Return (Inl \<lparr>Message = ''Failed to create HTTP request to datasource.'',
                          Code = ERROR_CODE_INTERNAL\<rparr>), [])
          else
            let req = newRequest request url in
            case Do env req of
              None \<Rightarrow>
                (Return (Inl \<lparr>Message = ''Failed to send request to datasource.'',
                              Code = ERROR_CODE_INTERNAL\<rparr>), [ClientDo req])
            | Some res \<Rightarrow>
                let response =
                      \<lparr>Response.StatusCode = HttpResponse.StatusCode res,
                       RetryAfterHeader = HeaderGet (Header res) ''Retry-After'',
                       Objects = None, NextCursor = []\<rparr> in
                if HttpResponse.StatusCode res \<noteq> 200 then
                  (Return (Inr response), [ClientDo req])
                else
                  \<comment> \<open>from here on \<open>defer res.Body.Close()\<close> is registered\<close>
                  case Body res of
                    None \<Rightarrow>
                      (Return (Inl \<lparr>Message = ''Failed to read response body.'',
                                    Code = ERROR_CODE_DATASOURCE_FAILED\<rparr>),
                       [ClientDo req, BodyReadAll, BodyClose])
                  | Some body \<Rightarrow>
                      (case ParseResponse (Unmarshal env) body of
                         Panic \<Rightarrow> (Panic, [ClientDo req, BodyReadAll, BodyClose])
                       | Return (Inl parseErr) \<Rightarrow>
                           (Return (Inl parseErr), [ClientDo req, BodyReadAll, BodyClose])
                       | Return (Inr (objects, nextCursor)) \<Rightarrow>
                           (Return (Inr (response\<lparr>Objects := objects, NextCursor := nextCursor\<rparr>)),
                            [ClientDo req, BodyReadAll, BodyClose])))"

section \<open>Scenarios\<close>

text \<open>
  Stand-ins for the transport and the decoder, in the manner of a fake transport in a test.
  \<open>scenarioUnmarshal\<close> answers, for the bodies listed, what \<open>json.Unmarshal\<close> answers
  for them; it is used at those bodies only.
\<close>

definition scenarioUnmarshal :: "string \<Rightarrow> string + string DatasourceResponse option" where
  \<open>scenarioUnmarshal body =
     (if body = ''{"teams":[{"id":"1"},{"id":"2"}],"more":true,"limit":2,"offset":0}'' then
        Inr (Some \<lparr>DatasourceResponse.Objects = Some [[''id'' \<mapsto> ''1''], [''id'' \<mapsto> ''2'']],
                   More = True, Limit = 2, Offset = 0\<rparr>)
      else if body = ''{"teams":[],"more":false,"limit":10,"offset":20}'' then
        Inr (Some \<lparr>DatasourceResponse.Objects = Some [], More = False, Limit = 10, Offset = 20\<rparr>)
      else if body = ''null'' then Inr None
      else if body = ''{"teams":'' then Inl ''unexpected end of JSON input''
      else Inl ''not a body of a scenario'')\<close>

definition scenarioEnv :: "int \<Rightarrow> (string \<rightharpoonup> string list) \<Rightarrow> string option \<Rightarrow> string Env" where
  \<comment> \<open>a transport that answers every request with the given status, headers and body\<close>
  "scenarioEnv status hdr body =
     \<lparr>NewRequestOK = (\<lambda>url. True),
      Do = (\<lambda>req. Some \<lparr>HttpResponse.StatusCode = status, Header = hdr, Body = body\<rparr>),
      Unmarshal = scenarioUnmarshal\<rparr>"

definition overflowUnmarshal :: "string \<Rightarrow> string + string DatasourceResponse option" where
  \<comment> \<open>the answer of \<open>json.Unmarshal\<close> for a last page of offsets: offset is the largest
      \<open>int64\<close>\<close>
  \<open>overflowUnmarshal body =
     (if body = ''{"teams":[],"more":true,"limit":1,"offset":9223372036854775807}'' then
        Inr (Some \<lparr>DatasourceResponse.Objects = Some [], More = True, Limit = 1,
                   Offset = 9223372036854775807\<rparr>)
      else Inl ''not a body of a scenario'')\<close>


definition scenarioRequest :: "string \<Rightarrow> Request" where
  "scenarioRequest cursor =
     \<lparr>BaseURL = ''https://api.example.com'', EntityExternalID = ''teams'', PageSize = 10,
      Cursor = cursor, HTTPAuthorization = ''Token token=abc''\<rparr>"

section \<open>Parsing what FormatInt writes\<close>

lemma digitOf_digits: "d < 10 \<Longrightarrow> digitOf (digits ! d) = Some d"
proof -
  assume "d < 10"
  then have "d \<in> {0,1,2,3,4,5,6,7,8,9}" by auto
  then show ?thesis
    by (auto simp: digits_def digitOf_def lower_def)
qed

lemma parseUintLoop_append:
  "parseUintLoop n (xs @ ys) =
     (case parseUintLoop n xs of (m, None) \<Rightarrow> parseUintLoop m ys | (m, Some e) \<Rightarrow> (m, Some e))"
  by (induction xs arbitrary: n) (auto simp: Let_def split: option.splits)

lemma unat_of_nat64: "n < 2 ^ 64 \<Longrightarrow> unat (word_of_nat n :: 64 word) = n"
  by (simp add: unat_of_nat)

lemma mod_between: "(n::int) \<le> a \<Longrightarrow> a < 2 * n \<Longrightarrow> a mod n = a - n"
proof -
  assume a: "n \<le> a" "a < 2 * n"
  have "a mod n = (a - n) mod n" by simp
  also have "\<dots> = a - n" by (rule mod_pos_pos_trivial) (use a in simp_all)
  finally show ?thesis .
qed

lemma mod_uminus_between: "0 < (u::int) \<Longrightarrow> u \<le> n \<Longrightarrow> (- u) mod n = n - u"
proof -
  assume a: "0 < u" "u \<le> n"
  have "(- u) mod n = (- u + n) mod n" by simp
  also have "\<dots> = (n - u) mod n" by (simp add: algebra_simps)
  also have "\<dots> = n - u" by (rule mod_pos_pos_trivial) (use a in simp_all)
  finally show ?thesis .
qed

lemma cutoffU_val: "unat cutoffU = 1844674407370955162"
  by (simp add: cutoffU_def maxUint64_def)

lemma parseUintLoop_digit:
  assumes "u < 2 ^ 64" "d < 10" "u = 10 * q + d"
  shows "parseUintLoop (of_nat q) [digits ! d] = (of_nat u, None)"
proof -
  have q: "q < 2 ^ 64" using assms by simp
  have uq: "unat (of_nat q :: uint64) = q" using q by (rule unat_of_nat64)
  have "q < 1844674407370955162" using assms by simp
  then have c: "\<not> (of_nat q :: uint64) \<ge> cutoffU"
    by (simp add: word_le_nat_alt cutoffU_val uq)
  have n10: "(of_nat q :: uint64) * 10 = of_nat (10 * q)" by simp
  have "10 * q < 2 ^ 64" using assms by simp
  then have u10: "unat (of_nat (10 * q) :: uint64) = 10 * q" by (rule unat_of_nat64)
  have n1: "(of_nat (10 * q) :: uint64) + of_nat d = of_nat u" using assms(3) by simp
  have uu: "unat (of_nat u :: uint64) = u" using assms(1) by (rule unat_of_nat64)
  have lt: "\<not> (of_nat u :: uint64) < of_nat (10 * q)"
    unfolding word_less_nat_alt uu u10 using assms(3) by simp
  have mx: "\<not> (of_nat u :: uint64) > maxUint64"
    by (simp add: maxUint64_def)
  show ?thesis
    using c lt mx assms(2) by (simp add: digitOf_digits Let_def n1 n10 del: of_nat_mult of_nat_add)
qed

lemma parseUintLoop_formatBits:
  "u < 2 ^ 64 \<Longrightarrow> parseUintLoop 0 (formatBits u) = (of_nat u, None)"
proof (induction u rule: formatBits.induct)
  case (1 u)
  show ?case
  proof (cases "u < 10")
    case True
    have "parseUintLoop (of_nat 0) [digits ! u] = (of_nat u, None)"
      by (rule parseUintLoop_digit) (use True 1 in auto)
    then show ?thesis using True by (simp add: formatBits.simps[of u])
  next
    case False
    have "u div 10 < 2 ^ 64" using 1(2) by simp
    then have ih: "parseUintLoop 0 (formatBits (u div 10)) = (of_nat (u div 10), None)"
      using 1(1) False by simp
    have "parseUintLoop (of_nat (u div 10)) [digits ! (u mod 10)] = (of_nat u, None)"
      by (rule parseUintLoop_digit) (use 1(2) in auto)
    then show ?thesis using False ih
      by (simp add: formatBits.simps[of u] parseUintLoop_append)
  qed
qed

lemma formatBits_nonempty: "formatBits u \<noteq> []"
  by (subst formatBits.simps) simp

lemma ParseUint_formatBits: "u < 2 ^ 64 \<Longrightarrow> ParseUint (formatBits u) = (of_nat u, None)"
  by (simp add: ParseUint_def formatBits_nonempty parseUintLoop_formatBits)

lemma hd_formatBits: "hd (formatBits u) \<in> set digits"
proof (induction u rule: formatBits.induct)
  case (1 u)
  show ?case
  proof (cases "u < 10")
    case True
    then have "u \<in> {0,1,2,3,4,5,6,7,8,9}" by auto
    then show ?thesis by (auto simp: formatBits.simps[of u] digits_def)
  next
    case False
    then show ?thesis using 1 by (simp add: formatBits.simps[of u] formatBits_nonempty)
  qed
qed

lemma hd_formatBits_sign: "hd (formatBits u) \<noteq> CHR ''-''" "hd (formatBits u) \<noteq> CHR ''+''"
  using hd_formatBits[of u] by (auto simp: digits_def)


lemma sint64: "sint (w :: 64 word) = (if uint w < 2 ^ 63 then uint w else uint w - 2 ^ 64)"
proof -
  have b: "0 \<le> uint w" "uint w < 2 ^ 64" using uint_lt2p[of w] by simp_all
  have "sint w = (uint w + 2 ^ 63) mod 2 ^ 64 - 2 ^ 63"
    by (simp add: sint_uint signed_take_bit_eq_take_bit_shift take_bit_eq_mod)
  also have "\<dots> = (if uint w < 2 ^ 63 then uint w else uint w - 2 ^ 64)"
  proof (cases "uint w < 2 ^ 63")
    case True
    then have "(uint w + 2 ^ 63) mod 2 ^ 64 = uint w + 2 ^ 63" using b by simp
    then show ?thesis using True by simp
  next
    case False
    have "(uint w + 2 ^ 63) mod 2 ^ 64 = (uint w + 2 ^ 63) - 2 ^ 64"
      by (rule mod_between) (use False b in simp_all)
    then show ?thesis using False by simp
  qed
  finally show ?thesis .
qed

lemma cutoffI_val: "uint cutoffI = 2 ^ 63"
  by (simp add: cutoffI_def)

lemma ParseInt_FormatInt: "ParseInt (FormatInt x) = (x, None)"
proof (cases "sint x < 0")
  case True
  have ux: "unat (- x) < 2 ^ 64" using unsigned_less[of "- x"] by simp
  have b: "uint x < 2 ^ 64" using uint_lt2p[of x] by simp
  have ge: "2 ^ 63 \<le> uint x" using True by (simp add: sint64 split: if_splits)
  have "uint (- x) = (- uint x) mod 2 ^ 64" by (simp add: uint_word_ariths)
  also have "\<dots> = 2 ^ 64 - uint x"
    by (rule mod_uminus_between) (use b ge in simp_all)
  finally have "uint (- x) \<le> 2 ^ 63" using ge by simp
  then have neg: "\<not> (- x) > cutoffI"
    by (simp add: word_less_def cutoffI_val)
  show ?thesis using True neg
    by (simp add: FormatInt_def ParseInt_def ParseUint_formatBits[OF ux])
next
  case False
  have ux: "unat x < 2 ^ 64" using unsigned_less[of x] by simp
  have "uint x < 2 ^ 64" using uint_lt2p[of x] by simp
  then have "uint x < 2 ^ 63" using False by (simp add: sint64 split: if_splits)
  then have pos: "\<not> x \<ge> cutoffI"
    by (simp add: word_le_def cutoffI_val)
  show ?thesis using False pos hd_formatBits_sign[of "unat x"]
    by (simp add: FormatInt_def ParseInt_def ParseUint_formatBits[OF ux] formatBits_nonempty)
qed

lemma FormatInt_nonempty: "FormatInt x \<noteq> []"
  by (simp add: FormatInt_def formatBits_nonempty)

text \<open>
  Go's \<open>+\<close> on \<open>int64\<close> wraps around. Where the sum of two non-negative values fits
  into 63 bits, it is the sum of the integers.
\<close>

lemma int64_add_exact:
  "0 \<le> sint (a :: int64) \<Longrightarrow> 0 \<le> sint b \<Longrightarrow> sint a + sint b < 2 ^ 63
     \<Longrightarrow> sint (a + b) = sint a + sint b"
proof -
  assume h: "0 \<le> sint a" "0 \<le> sint b" "sint a + sint b < 2 ^ 63"
  have ba: "uint a < 2 ^ 64" "uint b < 2 ^ 64" using uint_lt2p[of a] uint_lt2p[of b] by simp_all
  have a: "sint a = uint a" "uint a < 2 ^ 63" using h(1) ba by (simp_all add: sint64 split: if_splits)
  have b: "sint b = uint b" "uint b < 2 ^ 63" using h(2) ba by (simp_all add: sint64 split: if_splits)
  have "uint (a + b) = (uint a + uint b) mod 2 ^ 64" by (simp add: uint_word_ariths)
  also have "\<dots> = uint a + uint b" using a b by simp
  finally have s: "uint (a + b) = uint a + uint b" .
  then show ?thesis using h a b by (simp add: sint64[of "a + b"])
qed

text \<open>Values at the inputs of the scenarios, and two facts about \<open>parseCursor\<close>.\<close>

lemma parseCursor_error_code:
  "parseCursor cursor = Inl e \<Longrightarrow> Code e = ERROR_CODE_INVALID_PAGE_REQUEST_CONFIG"
  by (auto simp: parseCursor_def split: if_splits prod.splits option.splits)

lemma ParseInt_notanumber: "ParseInt ''notanumber'' = (0, Some ErrSyntax)"
  by (simp add: ParseInt_def ParseUint_def digitOf_def lower_def)

lemma FormatInt_0: "FormatInt 0 = ''0''"
  by (simp add: FormatInt_def formatBits.simps digits_def)

lemma FormatInt_10: "FormatInt 10 = ''10''"
  by (simp add: FormatInt_def formatBits.simps digits_def)

lemma FormatInt_2: "FormatInt 2 = ''2''"
  by (simp add: FormatInt_def formatBits.simps digits_def)







section \<open>The cursor codec\<close>

text \<open>
  Claim C1, as stated, says that for every pair of non-negative \<open>int64\<close> values
  \<open>offset\<close> and \<open>limit\<close> the cursor that \<open>ParseResponse\<close> computes when more data
  remains decodes to \<open>offset + limit\<close>. For the offset \<open>9223372036854775807\<close> and the
  limit 1 the sum of the source wraps around: the cursor is
  \<open>-9223372036854775808\<close> and decodes to that negative number, which is not the sum of
  the two values.
\<close>

theorem cursor_round_trip_overflow_counterexample:
  \<open>overflowUnmarshal ''{"teams":[],"more":true,"limit":1,"offset":9223372036854775807}'' =
     Inr (Some \<lparr>DatasourceResponse.Objects = Some [], More = True, Limit = 1,
                Offset = 9223372036854775807\<rparr>) \<and>
   0 \<le> sint (9223372036854775807 :: int64) \<and> 0 \<le> sint (1 :: int64) \<and>
   ParseResponse overflowUnmarshal ''{"teams":[],"more":true,"limit":1,"offset":9223372036854775807}'' =
     Return (Inr (Some [], ''-9223372036854775808'')) \<and>
   parseCursor ''-9223372036854775808'' = Inr (- 9223372036854775808) \<and>
   sint (- 9223372036854775808 :: int64) = - 9223372036854775808 \<and>
   sint (9223372036854775807 :: int64) + sint (1 :: int64) = 9223372036854775808\<close>
proof -
  let ?body = \<open>''{"teams":[],"more":true,"limit":1,"offset":9223372036854775807}''\<close>
  have f: "FormatInt (9223372036854775807 + 1) = ''-9223372036854775808''"
    by (simp add: FormatInt_def formatBits.simps digits_def)
  have "parseCursor (FormatInt (9223372036854775807 + 1)) = Inr (9223372036854775807 + 1)"
    by (simp only: parseCursor_def FormatInt_nonempty ParseInt_FormatInt if_False prod.case option.case)
  then have "parseCursor ''-9223372036854775808'' = Inr (9223372036854775807 + 1)"
    by (simp only: f)
  then have p: "parseCursor ''-9223372036854775808'' = Inr (- 9223372036854775808)"
    by simp
  have u: "overflowUnmarshal ?body =
     Inr (Some \<lparr>DatasourceResponse.Objects = Some [], More = True, Limit = 1,
                Offset = 9223372036854775807\<rparr>)"
    by (simp add: overflowUnmarshal_def)
  have r: "ParseResponse overflowUnmarshal ?body = Return (Inr (Some [], ''-9223372036854775808''))"
    by (simp add: ParseResponse_def u nextCursorOf_def f del: one_add_one numeral_plus_one)
       (simp add: f [simplified])
  have i: "sint (- 9223372036854775808 :: int64) = - 9223372036854775808" by simp
  have j: "sint (9223372036854775807 :: int64) + sint (1 :: int64) = 9223372036854775808" by simp
  have k: "0 \<le> sint (9223372036854775807 :: int64) \<and> 0 \<le> sint (1 :: int64)" by simp
  show ?thesis using u k r p i j by blast
qed

text \<open>
  In general the decoded offset is Go's \<open>int64\<close> sum, for every envelope with more data.
\<close>

lemma cursor_round_trip_wrapping:
  assumes "unmarshal body = Inr (Some data)" and "More data"
  shows "\<exists>objects cursor. ParseResponse unmarshal body = Return (Inr (objects, cursor)) \<and>
           parseCursor cursor = Inr (Offset data + Limit data)"
  using assms
  by (simp add: ParseResponse_def nextCursorOf_def parseCursor_def FormatInt_nonempty ParseInt_FormatInt)

text \<open>
  Claim C1, amended. For every envelope with more data whose \<open>offset\<close> and \<open>limit\<close>
  are non-negative and whose sum does not exceed the largest \<open>int64\<close>, the cursor that
  \<open>ParseResponse\<close> returns decodes with no error to the sum of \<open>offset\<close> and
  \<open>limit\<close>.
\<close>

theorem cursor_round_trip:
  assumes "unmarshal body = Inr (Some data)" and "More data"
      and "0 \<le> sint (Offset data)" and "0 \<le> sint (Limit data)"
      and "sint (Offset data) + sint (Limit data) < 2 ^ 63"
  shows "\<exists>objects cursor n. ParseResponse unmarshal body = Return (Inr (objects, cursor)) \<and>
           parseCursor cursor = Inr n \<and> sint n = sint (Offset data) + sint (Limit data)"
proof -
  obtain objects cursor where
    r: "ParseResponse unmarshal body = Return (Inr (objects, cursor))"
       "parseCursor cursor = Inr (Offset data + Limit data)"
    using cursor_round_trip_wrapping [of unmarshal body data, OF assms(1,2)] by blast
  have "sint (Offset data + Limit data) = sint (Offset data) + sint (Limit data)"
    using assms(3,4,5) by (rule int64_add_exact)
  with r show ?thesis by blast
qed

theorem cursor_round_trip_witness:
  \<open>scenarioUnmarshal ''{"teams":[{"id":"1"},{"id":"2"}],"more":true,"limit":2,"offset":0}'' =
     Inr (Some \<lparr>DatasourceResponse.Objects = Some [[''id'' \<mapsto> ''1''], [''id'' \<mapsto> ''2'']],
                More = True, Limit = 2, Offset = 0\<rparr>) \<and>
   0 \<le> sint (0 :: int64) \<and> 0 \<le> sint (2 :: int64) \<and>
   sint (0 :: int64) + sint (2 :: int64) < 2 ^ 63 \<and>
   (\<exists>objects cursor n.
      ParseResponse scenarioUnmarshal
        ''{"teams":[{"id":"1"},{"id":"2"}],"more":true,"limit":2,"offset":0}'' =
        Return (Inr (objects, cursor)) \<and>
      parseCursor cursor = Inr n \<and> sint n = 2)\<close>
proof -
  let ?body = \<open>''{"teams":[{"id":"1"},{"id":"2"}],"more":true,"limit":2,"offset":0}''\<close>
  let ?data = "\<lparr>DatasourceResponse.Objects = Some [[''id'' \<mapsto> ''1''], [''id'' \<mapsto> ''2'']],
                More = True, Limit = 2, Offset = 0\<rparr> :: string DatasourceResponse"
  have a: "scenarioUnmarshal ?body = Inr (Some ?data)" by (simp add: scenarioUnmarshal_def)
  have b: "More ?data" by simp
  have c: "0 \<le> sint (Offset ?data)" by simp
  have d: "0 \<le> sint (Limit ?data)" by simp
  have e: "sint (Offset ?data) + sint (Limit ?data) < 2 ^ 63" by simp
  show ?thesis
    using a cursor_round_trip [of scenarioUnmarshal ?body ?data, OF a b c d e] by simp
qed

text \<open>
  Claim C2, as stated, says that a cursor that does not parse is refused with the code
  \<open>InvalidCursor\<close>. The cursor \<open>abc\<close> is refused with another code.
\<close>

theorem parseCursor_InvalidCursor_counterexample:
  "\<not> (\<exists>e. parseCursor ''abc'' = Inl e \<and> Code e = InvalidCursor)"
  by (simp add: parseCursor_def ParseInt_def ParseUint_def digitOf_def lower_def)

text \<open>
  Claim C2, amended. For every non-empty cursor that \<open>strconv.ParseInt\<close> does not accept
  as a base-10 signed 64-bit integer (a syntax error or a value out of range),
  \<open>parseCursor\<close> returns an error whose code is \<open>InvalidPageRequestConfig\<close>.
\<close>

theorem parseCursor_parse_failure:
  "cursor \<noteq> [] \<Longrightarrow> snd (ParseInt cursor) \<noteq> None \<Longrightarrow>
     parseCursor cursor = Inl \<lparr>Message = ''Request cursor conversion to int64 failed.'',
                               Code = ERROR_CODE_INVALID_PAGE_REQUEST_CONFIG\<rparr>"
  by (auto simp: parseCursor_def split: prod.splits option.splits)

theorem parseCursor_parse_failure_witness:
  "''abc'' \<noteq> [] \<and> snd (ParseInt ''abc'') \<noteq> None \<and>
     parseCursor ''abc'' = Inl \<lparr>Message = ''Request cursor conversion to int64 failed.'',
                               Code = ERROR_CODE_INVALID_PAGE_REQUEST_CONFIG\<rparr>"
proof -
  have a: "''abc'' \<noteq> []" by simp
  have b: "snd (ParseInt ''abc'') \<noteq> None"
    by (simp add: ParseInt_def ParseUint_def digitOf_def lower_def)
  show ?thesis using a b parseCursor_parse_failure [OF a b] by simp
qed







section \<open>The page fetcher\<close>

text \<open>
  Claim C3 (a status other than 200). When the transport answers with a status other than
  200, \<open>GetPage\<close> returns a response with that status, no records, no next cursor and the
  first value of the header \<open>Retry-After\<close> (the empty string when the header is absent),
  and no error. The hypotheses say that the call reaches the transport: the cursor decodes
  and \<open>net/http\<close> accepts the URL.
\<close>

theorem GetPage_non_success_status:
  assumes "parseCursor (Cursor request) = Inr offset"
      and "NewRequestOK env (requestURL request offset)"
      and "Do env (newRequest request (requestURL request offset)) = Some res"
      and "HttpResponse.StatusCode res \<noteq> 200"
  shows "fst (GetPage env request) =
           Return (Inr \<lparr>Response.StatusCode = HttpResponse.StatusCode res,
                        RetryAfterHeader = HeaderGet (Header res) ''Retry-After'',
                        Objects = None, NextCursor = []\<rparr>)"
  using assms by (simp add: GetPage_def Let_def)

theorem GetPage_non_success_status_witness:
  "parseCursor (Cursor (scenarioRequest [])) = Inr 0 \<and>
   NewRequestOK (scenarioEnv 429 [''Retry-After'' \<mapsto> [''30'']] None) (requestURL (scenarioRequest []) 0) \<and>
   Do (scenarioEnv 429 [''Retry-After'' \<mapsto> [''30'']] None)
      (newRequest (scenarioRequest []) (requestURL (scenarioRequest []) 0))
     = Some \<lparr>HttpResponse.StatusCode = 429, Header = [''Retry-After'' \<mapsto> [''30'']], Body = None\<rparr> \<and>
   (429 :: int) \<noteq> 200 \<and>
   fst (GetPage (scenarioEnv 429 [''Retry-After'' \<mapsto> [''30'']] None) (scenarioRequest [])) =
     Return (Inr \<lparr>Response.StatusCode = 429, RetryAfterHeader = ''30'', Objects = None, NextCursor = []\<rparr>)"
proof -
  let ?env = "scenarioEnv 429 [''Retry-After'' \<mapsto> [''30'']] None"
  let ?res = "\<lparr>HttpResponse.StatusCode = 429, Header = [''Retry-After'' \<mapsto> [''30'']], Body = None\<rparr>"
  have a: "parseCursor (Cursor (scenarioRequest [])) = Inr 0"
    by (simp add: scenarioRequest_def parseCursor_def)
  have b: "NewRequestOK ?env (requestURL (scenarioRequest []) 0)"
    by (simp add: scenarioEnv_def)
  have c: "Do ?env (newRequest (scenarioRequest []) (requestURL (scenarioRequest []) 0)) = Some ?res"
    by (simp add: scenarioEnv_def)
  have d: "HttpResponse.StatusCode ?res \<noteq> 200" by simp
  show ?thesis
    using a b c GetPage_non_success_status [OF a b c d] by (simp add: HeaderGet_def)
qed

text \<open>
  Claim C4 (a cursor that does not decode). When the cursor of the request does not decode,
  \<open>GetPage\<close> returns the error of \<open>parseCursor\<close>, whose code is
  \<open>InvalidPageRequestConfig\<close>, and nothing has happened to the transport: the list of
  events is empty.
\<close>

theorem GetPage_invalid_cursor:
  "parseCursor (Cursor request) = Inl e \<Longrightarrow>
     GetPage env request = (Return (Inl e), []) \<and> Code e = ERROR_CODE_INVALID_PAGE_REQUEST_CONFIG"
  by (simp add: GetPage_def parseCursor_error_code)

theorem GetPage_invalid_cursor_witness:
  "parseCursor (Cursor (scenarioRequest ''notanumber''))
     = Inl \<lparr>Message = ''Request cursor conversion to int64 failed.'',
            Code = ERROR_CODE_INVALID_PAGE_REQUEST_CONFIG\<rparr> \<and>
   GetPage (scenarioEnv 200 Map.empty (Some [])) (scenarioRequest ''notanumber'')
     = (Return (Inl \<lparr>Message = ''Request cursor conversion to int64 failed.'',
                     Code = ERROR_CODE_INVALID_PAGE_REQUEST_CONFIG\<rparr>), [])"
proof -
  have a: "parseCursor (Cursor (scenarioRequest ''notanumber''))
     = Inl \<lparr>Message = ''Request cursor conversion to int64 failed.'',
            Code = ERROR_CODE_INVALID_PAGE_REQUEST_CONFIG\<rparr>"
    by (simp add: scenarioRequest_def parseCursor_def ParseInt_notanumber)
  show ?thesis
    using a GetPage_invalid_cursor [OF a, of "scenarioEnv 200 Map.empty (Some [])"] by simp
qed

text \<open>
  Claim C8 says that the body of the response is closed on every path that has obtained a
  response. On the path of a status other than 200 it is not: \<open>GetPage\<close> returns before
  the deferred \<open>Close\<close> is registered. For the answer 429 the only event is the call of
  the transport.
\<close>

theorem GetPage_non_success_leaves_body_open:
  "GetPage (scenarioEnv 429 [''Retry-After'' \<mapsto> [''30'']] (Some [])) (scenarioRequest []) =
     (Return (Inr \<lparr>Response.StatusCode = 429, RetryAfterHeader = ''30'', Objects = None, NextCursor = []\<rparr>),
      [ClientDo (newRequest (scenarioRequest []) ''https://api.example.com/teams?offset=0&limit=10'')])"
  by (simp add: GetPage_def parseCursor_def scenarioRequest_def scenarioEnv_def requestURL_def
        FormatInt_0 FormatInt_10 HeaderGet_def Let_def)

text \<open>
  The same for every status other than 200, and the paths after a status 200, which all
  end by closing the body (also the one on which \<open>ParseResponse\<close> panics).
\<close>

lemma GetPage_non_success_no_close:
  assumes "parseCursor (Cursor request) = Inr offset"
      and "NewRequestOK env (requestURL request offset)"
      and "Do env (newRequest request (requestURL request offset)) = Some res"
      and "HttpResponse.StatusCode res \<noteq> 200"
  shows "BodyClose \<notin> set (snd (GetPage env request))"
  using assms by (simp add: GetPage_def Let_def)

lemma GetPage_success_status_closes:
  assumes "parseCursor (Cursor request) = Inr offset"
      and "NewRequestOK env (requestURL request offset)"
      and "Do env (newRequest request (requestURL request offset)) = Some res"
      and "HttpResponse.StatusCode res = 200"
  shows "last (snd (GetPage env request)) = BodyClose"
  using assms by (simp add: GetPage_def Let_def split: option.splits outcome.splits sum.splits prod.splits)

section \<open>The response parser\<close>



text \<open>
  Claim C6 says that \<open>ParseResponse\<close> fails with an \<open>Internal\<close> error on every body
  that is malformed or does not have the shape of the envelope, and returns the envelope's
  records for the others. The body \<open>null\<close> is not an envelope, and \<open>json.Unmarshal\<close>
  reports no error for it: it leaves the pointer \<open>nil\<close>. On this body \<open>ParseResponse\<close>
  returns neither an error nor records.
\<close>

theorem ParseResponse_null_neither_error_nor_records:
  "scenarioUnmarshal ''null'' = Inr None \<and>
   \<not> (\<exists>e. ParseResponse scenarioUnmarshal ''null'' = Return (Inl e)) \<and>
   \<not> (\<exists>r. ParseResponse scenarioUnmarshal ''null'' = Return (Inr r))"
  by (simp add: ParseResponse_def scenarioUnmarshal_def)

text \<open>
  For the two other answers of the decoder the claim holds. For every body that
  \<open>json.Unmarshal\<close> rejects, because it is malformed or because it does not fit the
  envelope, \<open>ParseResponse\<close> returns an error with the code \<open>Internal\<close> whose message
  contains the decoder's diagnostic. For every body that decodes to an envelope it returns
  the envelope's records unchanged, with the next cursor. The scenarios are a truncated
  body and the body with two teams, which gives these two records and the cursor \<open>2\<close>.
\<close>

lemma ParseResponse_decode:
  "(unmarshal body = Inl diag \<longrightarrow>
      ParseResponse unmarshal body =
        Return (Inl \<lparr>Message = ''Failed to unmarshal the datasource response: '' @ diag @ ''.'',
                     Code = ERROR_CODE_INTERNAL\<rparr>)) \<and>
   (unmarshal body = Inr (Some data) \<longrightarrow>
      ParseResponse unmarshal body =
        Return (Inr (DatasourceResponse.Objects data,
                     nextCursorOf (More data) (Offset data) (Limit data))))"
  by (simp add: ParseResponse_def)

lemma ParseResponse_decode_scenarios:
  \<open>scenarioUnmarshal ''{"teams":'' = Inl ''unexpected end of JSON input'' \<and>
   ParseResponse scenarioUnmarshal ''{"teams":'' =
     Return (Inl \<lparr>Message = ''Failed to unmarshal the datasource response: unexpected end of JSON input.'',
                  Code = ERROR_CODE_INTERNAL\<rparr>) \<and>
   scenarioUnmarshal ''{"teams":[{"id":"1"},{"id":"2"}],"more":true,"limit":2,"offset":0}'' =
     Inr (Some \<lparr>DatasourceResponse.Objects = Some [[''id'' \<mapsto> ''1''], [''id'' \<mapsto> ''2'']],
                More = True, Limit = 2, Offset = 0\<rparr>) \<and>
   ParseResponse scenarioUnmarshal ''{"teams":[{"id":"1"},{"id":"2"}],"more":true,"limit":2,"offset":0}'' =
     Return (Inr (Some [[''id'' \<mapsto> ''1''], [''id'' \<mapsto> ''2'']], ''2''))\<close>
proof -
  let ?bad = \<open>''{"teams":''\<close>
  let ?body = \<open>''{"teams":[{"id":"1"},{"id":"2"}],"more":true,"limit":2,"offset":0}''\<close>
  let ?data = "\<lparr>DatasourceResponse.Objects = Some [[''id'' \<mapsto> ''1''], [''id'' \<mapsto> ''2'']],
                More = True, Limit = 2, Offset = 0\<rparr> :: string DatasourceResponse"
  have a: "scenarioUnmarshal ?bad = Inl ''unexpected end of JSON input''"
    by (simp add: scenarioUnmarshal_def)
  have b: "scenarioUnmarshal ?body = Inr (Some ?data)"
    by (simp add: scenarioUnmarshal_def)
  have c: "nextCursorOf True 0 2 = ''2''"
    by (simp add: nextCursorOf_def FormatInt_2)
  show ?thesis
    using a b c
      ParseResponse_decode [of scenarioUnmarshal ?bad "''unexpected end of JSON input''" ?data]
      ParseResponse_decode [of scenarioUnmarshal ?body "[]" ?data]
    by simp
qed

text \<open>
  Claim C9 says that \<open>ParseResponse\<close> returns for every body, the body \<open>null\<close>
  among them, and never panics. For the body \<open>null\<close> \<open>json.Unmarshal\<close> reports no
  error and leaves the pointer \<open>nil\<close>; reading \<open>data.More\<close> then panics.
\<close>

theorem ParseResponse_null_panics:
  "ParseResponse scenarioUnmarshal ''null'' = Panic"
  by (simp add: ParseResponse_def scenarioUnmarshal_def)

text \<open>
  \<open>ParseResponse\<close> returns exactly when the decoder does not leave the pointer \<open>nil\<close>.
  The panic goes through \<open>GetPage\<close>, which closes the body on the way.
\<close>

lemma ParseResponse_nil_panics:
  "unmarshal body = Inr None \<Longrightarrow> ParseResponse unmarshal body = Panic"
  by (simp add: ParseResponse_def)

lemma ParseResponse_returns_iff:
  "(\<exists>r. ParseResponse unmarshal body = Return r) \<longleftrightarrow> unmarshal body \<noteq> Inr None"
  by (auto simp: ParseResponse_def split: sum.splits option.splits)

lemma GetPage_null_body_panics:
  "GetPage (scenarioEnv 200 Map.empty (Some ''null'')) (scenarioRequest []) =
     (Panic, [ClientDo (newRequest (scenarioRequest []) ''https://api.example.com/teams?offset=0&limit=10''),
              BodyReadAll, BodyClose])"
  by (simp add: GetPage_def parseCursor_def scenarioRequest_def scenarioEnv_def requestURL_def
        FormatInt_0 FormatInt_10 HeaderGet_def Let_def ParseResponse_def scenarioUnmarshal_def)

end
